theory Spec2Isabelle
  imports Main "HOL-Library.Word"
begin

section \<open>JavaScript values used by the image pipeline\<close>

text \<open>
  Strings are \<^typ>\<open>string\<close>: a character stands for one code unit below 256. A
  \<open>Buffer\<close> is a list of bytes. Numbers that carry pixel counts and qualities are
  integers, so \<open>Math.round\<close> is the identity on them and is not written.
\<close>

type_synonym byte = "8 word"
type_synonym buffer = "byte list"

text \<open>
  A thrown value. \<open>String(err)\<close> of an \<open>Error\<close> object is
  \<open>Error.prototype.toString\<close>: the name, a colon and the message, or the one of them
  that is not empty.
\<close>

datatype error = Error (errName: string) (errMessage: string)

definition newError :: "string \<Rightarrow> error" where
  "newError msg = Error ''Error'' msg"

definition String_of_error :: "error \<Rightarrow> string" where
  "String_of_error e =
     (if errName e = [] then errMessage e
      else if errMessage e = [] then errName e
      else errName e @ '': '' @ errMessage e)"

subsection \<open>String methods\<close>

text \<open>
  The white space of \<open>String.prototype.trim\<close> and of the regular expression class
  \<open>\s\<close>, among the code units below 256: tab, line feed, vertical tab, form feed,
  carriage return, space and the no-break space.
\<close>

definition isWhiteSpace :: "char \<Rightarrow> bool" where
  "isWhiteSpace c = ((of_char c :: nat) \<in> {9, 10, 11, 12, 13, 32, 160})"

definition trim :: "string \<Rightarrow> string" where
  "trim s = rev (dropWhile isWhiteSpace (rev (dropWhile isWhiteSpace s)))"

definition startsWith :: "string \<Rightarrow> string \<Rightarrow> bool" where
  "startsWith s p = (take (length p) s = p)"

definition endsWith :: "string \<Rightarrow> string \<Rightarrow> bool" where
  "endsWith s p = (length p \<le> length s \<and> drop (length s - length p) s = p)"

text \<open>
  \<open>toLowerCase\<close> on code units below 256: the letters A to Z, and the Latin-1
  capitals from 192 to 222 without the multiplication sign 215, move up by 32.
\<close>

definition lowerChar :: "char \<Rightarrow> char" where
  "lowerChar c =
     (let n = (of_char c :: nat) in
      if (65 \<le> n \<and> n \<le> 90) \<or> (192 \<le> n \<and> n \<le> 222 \<and> n \<noteq> 215)
      then char_of (n + 32) else c)"

definition toLowerCase :: "string \<Rightarrow> string" where
  "toLowerCase s = map lowerChar s"

subsection \<open>Base64\<close>

text \<open>
  \<open>Buffer.from(s, "base64")\<close> of the runtime never throws. It reads the standard and
  the URL-safe alphabet, skips every other character, and stops at the first \<open>=\<close>.
  Four sextets give three bytes; a rest of two or three sextets gives one or two bytes,
  a rest of one sextet gives none.
\<close>

definition unbase64 :: "char \<Rightarrow> nat option" where
  "unbase64 c =
     (let n = (of_char c :: nat) in
      if 65 \<le> n \<and> n \<le> 90 then Some (n - 65)
      else if 97 \<le> n \<and> n \<le> 122 then Some (n - 71)
      else if 48 \<le> n \<and> n \<le> 57 then Some (n + 4)
      else if c = CHR ''+'' \<or> c = CHR ''-'' then Some 62
      else if c = CHR ''/'' \<or> c = CHR ''_'' then Some 63
      else None)"

fun sextets :: "string \<Rightarrow> nat list" where
  "sextets [] = []"
| "sextets (c # cs) =
     (case unbase64 c of
        Some v \<Rightarrow> v # sextets cs
      | None \<Rightarrow> if c = CHR ''='' then [] else sextets cs)"

fun bytesOfSextets :: "nat list \<Rightarrow> buffer" where
  "bytesOfSextets (a # b # c # d # rest) =
     of_nat (a * 4 + b div 16) # of_nat ((b mod 16) * 16 + c div 4) #
     of_nat ((c mod 4) * 64 + d) # bytesOfSextets rest"
| "bytesOfSextets [a, b, c] =
     [of_nat (a * 4 + b div 16), of_nat ((b mod 16) * 16 + c div 4)]"
| "bytesOfSextets [a, b] = [of_nat (a * 4 + b div 16)]"
| "bytesOfSextets _ = []"

definition bufferFromBase64 :: "string \<Rightarrow> buffer" where
  "bufferFromBase64 s = bytesOfSextets (sextets s)"

text \<open>\<open>buf.toString("base64")\<close>: the standard alphabet, padded with \<open>=\<close>.\<close>

definition base64Char :: "nat \<Rightarrow> char" where
  "base64Char v =
     (if v < 26 then char_of (v + 65)
      else if v < 52 then char_of (v + 71)
      else if v < 62 then char_of (v - 4)
      else if v = 62 then CHR ''+'' else CHR ''/'')"

fun toBase64 :: "buffer \<Rightarrow> string" where
  "toBase64 (x # y # z # rest) =
     (let a = unat x; b = unat y; c = unat z in
      base64Char (a div 4) # base64Char ((a mod 4) * 16 + b div 16) #
      base64Char ((b mod 16) * 4 + c div 64) # base64Char (c mod 64) # toBase64 rest)"
| "toBase64 [x, y] =
     (let a = unat x; b = unat y in
      [base64Char (a div 4), base64Char ((a mod 4) * 16 + b div 16),
       base64Char ((b mod 16) * 4), CHR ''=''])"
| "toBase64 [x] =
     (let a = unat x in
      [base64Char (a div 4), base64Char ((a mod 4) * 16), CHR ''='', CHR ''=''])"
| "toBase64 [] = []"

section \<open>Content blocks and tool results\<close>

text \<open>
  A content block is an object whose \<open>type\<close> field selects the variant. The code
  tests every field with \<open>typeof ... === "string"\<close>, so a field is \<open>Some s\<close> when
  it holds the string \<open>s\<close> and \<open>None\<close> when it is missing or holds anything else.
  \<open>Other\<close> is every value that is neither an image nor a text object.
\<close>

datatype block =
  Image (data: "string option") (mimeType: "string option")
| Text (blockText: "string option")
| Other string

text \<open>
  A tool result: \<open>content\<close> is \<open>None\<close> when the field is not an array; the other
  fields are carried along untouched.
\<close>

record toolResult =
  content :: "block list option"
  details :: string

section \<open>The environment of the process\<close>

text \<open>
  What the code reads from the process and what it gets from its collaborators, each a
  function of its arguments:
  \<^item> \<open>CLAWDIS_IMAGE_BACKEND\<close>, \<open>process.versions.bun\<close> and \<open>process.platform\<close>;
  \<^item> \<open>detectMime\<close> of \<open>../media/mime.js\<close>, which is not among the sources: it
    classifies a buffer, returns \<open>undefined\<close> for no answer, and may throw;
  \<^item> the \<open>sharp\<close> library: whether the import throws, what \<open>metadata()\<close> reports
    and what \<open>toBuffer()\<close> returns for a resize and an output encoding;
  \<^item> \<open>/usr/bin/sips\<close> run on a temporary copy of the buffer: the standard output of
    the query \<open>-g pixelWidth -g pixelHeight\<close>, and the file written by
    \<open>-Z n -s format jpeg -s formatOptions q\<close>. An error of the temporary directory,
    of the file system or of the subprocess is the error of the run.
\<close>

datatype number = Finite int | NotFinite

datatype encoding = Jpeg int bool | Webp int | Png

record resizeOptions =
  resizeWidth :: int
  resizeHeight :: int
  resizeWithoutEnlargement :: bool

record env =
  CLAWDIS_IMAGE_BACKEND :: "string option"
  versions_bun :: "string option"
  platform :: string
  detectMime :: "buffer \<Rightarrow> error + string option"
  sharpImport :: "error option"
  sharpMetadata :: "buffer \<Rightarrow> error + (number option \<times> number option)"
  sharpToBuffer :: "buffer \<Rightarrow> resizeOptions \<Rightarrow> encoding \<Rightarrow> error + buffer"
  sipsQuery :: "buffer \<Rightarrow> error + string"
  sipsResample :: "buffer \<Rightarrow> int \<Rightarrow> int \<Rightarrow> error + buffer"

section \<open>src/media/image-ops.ts\<close>

record ImageMetadata =
  width :: int
  height :: int

definition isBun :: "env \<Rightarrow> bool" where
  "isBun e = (versions_bun e \<noteq> None)"

definition prefersSips :: "env \<Rightarrow> bool" where
  "prefersSips e =
     (CLAWDIS_IMAGE_BACKEND e = Some ''sips'' \<or>
      (CLAWDIS_IMAGE_BACKEND e \<noteq> Some ''sharp'' \<and> isBun e \<and> platform e = ''darwin''))"

text \<open>
  \<open>stdout.match(/key\s*([0-9]+)/)\<close>: the leftmost place where the key is followed
  by white space and at least one digit; the capture is the longest run of digits.
\<close>

definition isDigit :: "char \<Rightarrow> bool" where
  "isDigit c = (48 \<le> (of_char c :: nat) \<and> (of_char c :: nat) \<le> 57)"

fun matchDigitsAfter :: "string \<Rightarrow> string \<Rightarrow> string option" where
  "matchDigitsAfter key [] = None"
| "matchDigitsAfter key (c # cs) =
     (let digits = takeWhile isDigit (dropWhile isWhiteSpace (drop (length key) (c # cs)))
      in if startsWith (c # cs) key \<and> digits \<noteq> [] then Some digits
         else matchDigitsAfter key cs)"

declare matchDigitsAfter.simps [simp del]

text \<open>
  A natural number as the runtime holds it: the nearest double, a tie going to the even
  mantissa. Below \<open>2 ^ 53\<close> that is the number itself; above, the 53 leading bits
  are kept and the rest is rounded; a result of \<open>2 ^ 1024\<close> is \<open>Infinity\<close>.
\<close>

fun bitLength :: "nat \<Rightarrow> nat" where
  "bitLength n = (if n = 0 then 0 else Suc (bitLength (n div 2)))"

declare bitLength.simps [simp del]

definition toDouble :: "nat \<Rightarrow> number" where
  "toDouble v =
     (if v < 2 ^ 53 then Finite (int v)
      else
        (let k = bitLength v - 53;
             q = v div 2 ^ k;
             r = v mod 2 ^ k;
             half = 2 ^ (k - 1);
             mantissa = (if half < r \<or> (r = half \<and> odd q) then q + 1 else q)
         in if 2 ^ 1024 \<le> mantissa * 2 ^ k then NotFinite
            else Finite (int (mantissa * 2 ^ k))))"

text \<open>\<open>Number.parseInt(digits, 10)\<close> on a run of decimal digits.\<close>

definition parseInt :: "string \<Rightarrow> number" where
  "parseInt ds = toDouble (foldl (\<lambda>acc c. acc * 10 + (of_char c - 48)) 0 ds)"

definition sipsMetadataFromBuffer :: "env \<Rightarrow> buffer \<Rightarrow> error + ImageMetadata option" where
  "sipsMetadataFromBuffer e buf =
     (case sipsQuery e buf of
        Inl err \<Rightarrow> Inl err
      | Inr stdout \<Rightarrow>
          (case (matchDigitsAfter ''pixelWidth:'' stdout,
                 matchDigitsAfter ''pixelHeight:'' stdout) of
             (Some w, Some h) \<Rightarrow>
               (case (parseInt w, parseInt h) of
                  (Finite wd, Finite ht) \<Rightarrow>
                    if wd \<le> 0 \<or> ht \<le> 0 then Inr None
                    else Inr (Some \<lparr>width = wd, height = ht\<rparr>)
                | _ \<Rightarrow> Inr None)
           | _ \<Rightarrow> Inr None))"

definition sipsResizeToJpeg :: "env \<Rightarrow> buffer \<Rightarrow> int \<Rightarrow> int \<Rightarrow> error + buffer" where
  "sipsResizeToJpeg e buf maxSide quality =
     sipsResample e buf (max 1 maxSide) (max 1 (min 100 quality))"

definition getImageMetadata :: "env \<Rightarrow> buffer \<Rightarrow> error + ImageMetadata option" where
  "getImageMetadata e buf =
     (if prefersSips e then
        (case sipsMetadataFromBuffer e buf of Inl err \<Rightarrow> Inr None | Inr m \<Rightarrow> Inr m)
      else
        (case sharpImport e of
           Some err \<Rightarrow> Inr None
         | None \<Rightarrow>
             (case sharpMetadata e buf of
                Inl err \<Rightarrow> Inr None
              | Inr (w, h) \<Rightarrow>
                  (case (case w of None \<Rightarrow> Finite 0 | Some n \<Rightarrow> n,
                         case h of None \<Rightarrow> Finite 0 | Some n \<Rightarrow> n) of
                     (Finite wd, Finite ht) \<Rightarrow>
                       if wd \<le> 0 \<or> ht \<le> 0 then Inr None
                       else Inr (Some \<lparr>width = wd, height = ht\<rparr>)
                   | _ \<Rightarrow> Inr None))))"

text \<open>
  \<open>withoutEnlargement\<close> is an optional field: \<open>None\<close> when the caller leaves it
  out, and the code tests \<open>!== false\<close>.
\<close>

definition resizeToJpeg ::
  "env \<Rightarrow> buffer \<Rightarrow> int \<Rightarrow> int \<Rightarrow> bool option \<Rightarrow> error + buffer" where
  "resizeToJpeg e buf maxSide quality withoutEnlargement =
     (if prefersSips e then
        (if withoutEnlargement \<noteq> Some False then
           (case getImageMetadata e buf of
              Inl err \<Rightarrow> Inl err
            | Inr None \<Rightarrow> sipsResizeToJpeg e buf maxSide quality
            | Inr (Some meta) \<Rightarrow>
                (let maxDim = max (width meta) (height meta) in
                 if maxDim > 0 \<and> maxDim \<le> maxSide
                 then sipsResizeToJpeg e buf maxDim quality
                 else sipsResizeToJpeg e buf maxSide quality))
         else sipsResizeToJpeg e buf maxSide quality)
      else
        (case sharpImport e of
           Some err \<Rightarrow> Inl err
         | None \<Rightarrow>
             sharpToBuffer e buf
               \<lparr>resizeWidth = maxSide, resizeHeight = maxSide,
                resizeWithoutEnlargement = (withoutEnlargement \<noteq> Some False)\<rparr>
               (Jpeg quality True)))"

section \<open>src/agents/pi-tools.ts\<close>

definition MAX_IMAGE_DIMENSION_PX :: int where
  "MAX_IMAGE_DIMENSION_PX = 2000"

definition sniffMimeFromBase64 :: "env \<Rightarrow> string \<Rightarrow> string option" where
  "sniffMimeFromBase64 e base64 =
     (let trimmed = trim base64 in
      if trimmed = [] then None
      else
        (let takeLen = min 256 (length trimmed);
             sliceLen = takeLen - takeLen mod 4
         in if sliceLen < 8 then None
            else
              (case detectMime e (bufferFromBase64 (take sliceLen trimmed)) of
                 Inl err \<Rightarrow> None
               | Inr sniffed \<Rightarrow> sniffed)))"

definition rewriteReadImageHeader :: "string \<Rightarrow> string \<Rightarrow> string" where
  "rewriteReadImageHeader txt mime =
     (if startsWith txt ''Read image file ['' \<and> endsWith txt '']''
      then ''Read image file ['' @ mime @ '']''
      else txt)"

definition isImageBlock :: "block \<Rightarrow> bool" where
  "isImageBlock b =
     (case b of Image (Some d) (Some m) \<Rightarrow> True | _ \<Rightarrow> False)"

definition isTextBlock :: "block \<Rightarrow> bool" where
  "isTextBlock b = (case b of Text (Some t) \<Rightarrow> True | _ \<Rightarrow> False)"

text \<open>
  The callback of \<open>content.map\<close> in \<open>normalizeReadImageResult\<close>: every object of
  type image gets the sniffed type, whatever its other fields hold; a text object with a
  string gets its header rewritten; anything else is returned as it is.
\<close>

definition rewriteBlock :: "string \<Rightarrow> block \<Rightarrow> block" where
  "rewriteBlock sniffed b =
     (case b of
        Image d m \<Rightarrow> Image d (Some sniffed)
      | Text (Some t) \<Rightarrow> Text (Some (rewriteReadImageHeader t sniffed))
      | _ \<Rightarrow> b)"

definition normalizeReadImageResult ::
  "env \<Rightarrow> toolResult \<Rightarrow> string \<Rightarrow> error + toolResult" where
  "normalizeReadImageResult e result filePath =
     (let contentList = (case content result of Some c \<Rightarrow> c | None \<Rightarrow> []) in
      case find isImageBlock contentList of
        Some (Image (Some imageData) (Some imageMime)) \<Rightarrow>
          if trim imageData = [] then
            Inl (newError (''read: image payload is empty ('' @ filePath @ '')''))
          else
            (case sniffMimeFromBase64 e imageData of
               None \<Rightarrow> Inr result
             | Some sniffed \<Rightarrow>
                 if sniffed = [] then Inr result
                 else if \<not> startsWith sniffed ''image/'' then
                   Inl (newError (''read: file looks like '' @ sniffed @
                     '' but was treated as '' @ imageMime @ '' ('' @ filePath @ '')''))
                 else if sniffed = imageMime then Inr result
                 else Inr (result\<lparr>content := Some (map (rewriteBlock sniffed) contentList)\<rparr>))
      | _ \<Rightarrow> Inr result)"

record resizeResult =
  base64 :: string
  resultMime :: string
  resized :: bool

text \<open>
  The output encoding of the \<open>sharp\<close> pipeline in \<open>resizeImageBase64IfNeeded\<close>,
  from the lower-cased declared type.
\<close>

definition sharpEncodingFor :: "string \<Rightarrow> encoding" where
  "sharpEncodingFor mime =
     (if mime = ''image/jpeg'' \<or> mime = ''image/jpg'' then Jpeg 85 False
      else if mime = ''image/webp'' then Webp 85
      else if mime = ''image/png'' then Png
      else Png)"

definition resizeImageBase64IfNeeded ::
  "env \<Rightarrow> string \<Rightarrow> string \<Rightarrow> int \<Rightarrow> error + resizeResult" where
  "resizeImageBase64IfNeeded e b64 declaredMime maxDimensionPx =
     (let buf = bufferFromBase64 b64 in
      case getImageMetadata e buf of
        Inl err \<Rightarrow> Inl err
      | Inr meta \<Rightarrow>
          if (case meta of
                None \<Rightarrow> True
              | Some m \<Rightarrow> width m \<le> maxDimensionPx \<and> height m \<le> maxDimensionPx)
          then Inr \<lparr>base64 = b64, resultMime = declaredMime, resized = False\<rparr>
          else
            (let mime = toLowerCase declaredMime;
                 native =
                   (case sharpImport e of
                      Some err \<Rightarrow> Inl err
                    | None \<Rightarrow>
                        sharpToBuffer e buf
                          \<lparr>resizeWidth = maxDimensionPx, resizeHeight = maxDimensionPx,
                           resizeWithoutEnlargement = True\<rparr>
                          (sharpEncodingFor mime));
                 out =
                   (case native of
                      Inr bytes \<Rightarrow> Inr bytes
                    | Inl err \<Rightarrow> resizeToJpeg e buf maxDimensionPx 85 (Some True))
             in case out of
                  Inl err \<Rightarrow> Inl err
                | Inr bytes \<Rightarrow>
                    (case detectMime e (take 256 bytes) of
                       Inl err \<Rightarrow> Inl err
                     | Inr sniffed \<Rightarrow>
                         (let nextMime =
                                (case sniffed of
                                   Some s \<Rightarrow> if startsWith s ''image/'' then s else declaredMime
                                 | None \<Rightarrow> declaredMime)
                          in Inr \<lparr>base64 = toBase64 bytes, resultMime = nextMime,
                                  resized = True\<rparr>))))"

text \<open>
  Two parts of \<open>resizeImageBase64IfNeeded\<close> by name, as they stand in its body:
  the outcome of the \<open>try\<close> block, and the buffer \<open>out\<close> after the
  \<open>catch\<close> has fallen back to \<open>resizeToJpeg\<close>.
\<close>

abbreviation nativeResize :: "env \<Rightarrow> buffer \<Rightarrow> string \<Rightarrow> int \<Rightarrow> error + buffer" where
  "nativeResize e buf declaredMime maxDimensionPx \<equiv>
     (case sharpImport e of
        Some err \<Rightarrow> Inl err
      | None \<Rightarrow>
          sharpToBuffer e buf
            \<lparr>resizeWidth = maxDimensionPx, resizeHeight = maxDimensionPx,
             resizeWithoutEnlargement = True\<rparr>
            (sharpEncodingFor (toLowerCase declaredMime)))"

abbreviation resizedBytes :: "env \<Rightarrow> buffer \<Rightarrow> string \<Rightarrow> int \<Rightarrow> error + buffer" where
  "resizedBytes e buf declaredMime maxDimensionPx \<equiv>
     (case nativeResize e buf declaredMime maxDimensionPx of
        Inr bytes \<Rightarrow> Inr bytes
      | Inl err \<Rightarrow> resizeToJpeg e buf maxDimensionPx 85 (Some True))"

text \<open>
  The loop of \<open>sanitizeContentBlocksImages\<close>: \<open>out\<close> is the array built so far,
  and every iteration pushes exactly one block. The first pattern is the test
  \<open>isImageBlock(block)\<close>, which binds the two strings.
\<close>

fun sanitizeLoop :: "env \<Rightarrow> string \<Rightarrow> int \<Rightarrow> block list \<Rightarrow> block list \<Rightarrow> block list" where
  "sanitizeLoop e label maxDimensionPx [] out = out"
| "sanitizeLoop e label maxDimensionPx (b # rest) out =
     (case b of
        Image (Some d) (Some m) \<Rightarrow>
          (let trimmed = trim d in
           if trimmed = [] then
             sanitizeLoop e label maxDimensionPx rest
               (out @ [Text (Some (''['' @ label @ ''] omitted empty image payload''))])
           else
             (case resizeImageBase64IfNeeded e trimmed m maxDimensionPx of
                Inr r \<Rightarrow>
                  sanitizeLoop e label maxDimensionPx rest
                    (out @ [Image (Some (base64 r)) (Some (resultMime r))])
              | Inl err \<Rightarrow>
                  sanitizeLoop e label maxDimensionPx rest
                    (out @ [Text (Some (''['' @ label @ ''] omitted image payload: '' @
                       String_of_error err))])))
      | _ \<Rightarrow> sanitizeLoop e label maxDimensionPx rest (out @ [b]))"

text \<open>
  \<open>opts\<close> is the optional \<open>maxDimensionPx\<close>. The promise of the function is a
  result or a rejection; no statement outside the \<open>try\<close> of the loop can throw.
\<close>

definition sanitizeContentBlocksImages ::
  "env \<Rightarrow> block list \<Rightarrow> string \<Rightarrow> int option \<Rightarrow> error + block list" where
  "sanitizeContentBlocksImages e blocks label opts =
     (let maxDimensionPx =
            max (case opts of Some v \<Rightarrow> v | None \<Rightarrow> MAX_IMAGE_DIMENSION_PX) 1
      in Inr (sanitizeLoop e label maxDimensionPx blocks []))"

text \<open>
  The block that one iteration of the loop pushes for the input block \<open>b\<close>; the
  loop is shown below to push it at the place of \<open>b\<close>.
\<close>

definition pushedBlock :: "env \<Rightarrow> string \<Rightarrow> int \<Rightarrow> block \<Rightarrow> block" where
  "pushedBlock e label maxDimensionPx b =
     (case b of
        Image (Some d) (Some m) \<Rightarrow>
          if trim d = [] then Text (Some (''['' @ label @ ''] omitted empty image payload''))
          else
            (case resizeImageBase64IfNeeded e (trim d) m maxDimensionPx of
               Inr r \<Rightarrow> Image (Some (base64 r)) (Some (resultMime r))
             | Inl err \<Rightarrow>
                 Text (Some (''['' @ label @ ''] omitted image payload: '' @
                   String_of_error err)))
      | _ \<Rightarrow> b)"


section \<open>Environments for the concrete examples\<close>

text \<open>
  Modelled from the spec: \<open>detectMime\<close> of \<open>src/media/mime.ts\<close> is missing from the
  sources. The spec describes it as a classification of a byte buffer by magic-byte
  signatures that answers unknown when no signature matches, and names the PNG and the
  JPEG signature; the PDF signature stands for a file that is no image.
\<close>

definition detectMimeByMagic :: "buffer \<Rightarrow> error + string option" where
  "detectMimeByMagic buf =
     Inr (if take 8 buf = [0x89, 0x50, 0x4E, 0x47, 0x0D, 0x0A, 0x1A, 0x0A]
          then Some ''image/png''
          else if take 3 buf = [0xFF, 0xD8, 0xFF] then Some ''image/jpeg''
          else if take 5 buf = [0x25, 0x50, 0x44, 0x46, 0x2D] then Some ''application/pdf''
          else None)"

text \<open>
  A stand-in for the image library in the examples: \<open>metadata()\<close> reads the width and
  the height of a PNG header (bytes 16 to 23, the two low bytes of each) and throws on
  anything else; \<open>toBuffer()\<close> returns the signature of the requested encoding.
\<close>

definition pngMetadata :: "buffer \<Rightarrow> error + (number option \<times> number option)" where
  "pngMetadata buf =
     (if take 8 buf = [0x89, 0x50, 0x4E, 0x47, 0x0D, 0x0A, 0x1A, 0x0A] \<and> 24 \<le> length buf
      then Inr (Some (Finite (int (unat (buf ! 18)) * 256 + int (unat (buf ! 19)))),
                Some (Finite (int (unat (buf ! 22)) * 256 + int (unat (buf ! 23)))))
      else Inl (Error ''Error'' ''Input buffer contains unsupported image format''))"

definition signatureOf :: "buffer \<Rightarrow> resizeOptions \<Rightarrow> encoding \<Rightarrow> error + buffer" where
  "signatureOf buf opts enc =
     Inr (case enc of
            Jpeg q m \<Rightarrow> [0xFF, 0xD8, 0xFF, 0xE0]
          | Webp q \<Rightarrow> [0x52, 0x49, 0x46, 0x46, 0, 0, 0, 0, 0x57, 0x45, 0x42, 0x50]
          | Png \<Rightarrow> [0x89, 0x50, 0x4E, 0x47, 0x0D, 0x0A, 0x1A, 0x0A])"

definition noSips :: error where
  "noSips = Error ''Error'' ''spawn /usr/bin/sips ENOENT''"

text \<open>Node on Linux: the library loads, the external tool does not exist.\<close>

definition nodeLinux :: env where
  "nodeLinux =
     \<lparr>CLAWDIS_IMAGE_BACKEND = None, versions_bun = None, platform = ''linux'',
      detectMime = detectMimeByMagic, sharpImport = None,
      sharpMetadata = pngMetadata, sharpToBuffer = signatureOf,
      sipsQuery = (\<lambda>buf. Inl noSips), sipsResample = (\<lambda>buf n q. Inl noSips)\<rparr>"

text \<open>
  Bun on macOS: the import of the library throws; the external tool reports 640 by 480
  for every buffer and writes a JPEG signature followed by the target size.
\<close>

definition bunDarwin :: env where
  "bunDarwin =
     \<lparr>CLAWDIS_IMAGE_BACKEND = None, versions_bun = Some ''1.1.0'', platform = ''darwin'',
      detectMime = detectMimeByMagic,
      sharpImport = Some (Error ''Error'' ''Cannot find module sharp''),
      sharpMetadata = pngMetadata, sharpToBuffer = signatureOf,
      sipsQuery = (\<lambda>buf. Inr ''  pixelWidth: 640\<newline>  pixelHeight: 480\<newline>''),
      sipsResample = (\<lambda>buf n q. Inr [0xFF, 0xD8, 0xFF, of_nat (nat n div 256), of_nat (nat n)])\<rparr>"



text \<open>
  Node on Linux with a library that probes but whose every \<open>toBuffer()\<close> throws,
  and one where only the mozjpeg encoder, which \<open>resizeToJpeg\<close> asks for, works.
\<close>

definition nodeNoEncoder :: env where
  "nodeNoEncoder =
     nodeLinux\<lparr>sharpToBuffer := (\<lambda>buf opts enc. Inl (Error ''Error'' ''boom''))\<rparr>"

definition nodeMozjpegOnly :: env where
  "nodeMozjpegOnly =
     nodeLinux\<lparr>sharpToBuffer :=
       (\<lambda>buf opts enc.
          case enc of
            Jpeg q mozjpeg \<Rightarrow>
              if mozjpeg then Inr [0xFF, 0xD8, 0xFF, 0xE0] else Inl (Error ''Error'' ''boom'')
          | _ \<Rightarrow> Inl (Error ''Error'' ''boom''))\<rparr>"

section \<open>Backend selection\<close>

text \<open>
  C8 (as amended). The choice of the backend depends on the override, on whether the
  runtime is Bun and on the platform only. The external tool is preferred exactly when
  the override asks for it, or when the override does not ask for the native library and
  the runtime is Bun on macOS.
\<close>

theorem prefersSips_policy:
  "(prefersSips e \<longleftrightarrow>
      CLAWDIS_IMAGE_BACKEND e = Some ''sips'' \<or>
      (CLAWDIS_IMAGE_BACKEND e \<noteq> Some ''sharp'' \<and> versions_bun e \<noteq> None \<and>
       platform e = ''darwin'')) \<and>
   (CLAWDIS_IMAGE_BACKEND e = CLAWDIS_IMAGE_BACKEND e' \<and>
    (versions_bun e = None \<longleftrightarrow> versions_bun e' = None) \<and>
    platform e = platform e' \<longrightarrow> prefersSips e = prefersSips e')"
  by (auto simp: prefersSips_def isBun_def)

theorem prefersSips_policy_witness:
  "prefersSips bunDarwin \<and> \<not> prefersSips nodeLinux \<and>
   prefersSips (nodeLinux\<lparr>CLAWDIS_IMAGE_BACKEND := Some ''sips''\<rparr>) \<and>
   prefersSips (bunDarwin\<lparr>sharpImport := None\<rparr>) = prefersSips bunDarwin"
proof -
  let ?forced = "nodeLinux\<lparr>CLAWDIS_IMAGE_BACKEND := Some ''sips''\<rparr>"
  let ?loaded = "bunDarwin\<lparr>sharpImport := None\<rparr>"
  have bun: "prefersSips bunDarwin"
    using prefersSips_policy [of bunDarwin bunDarwin, THEN conjunct1]
    by (simp add: bunDarwin_def)
  have node: "\<not> prefersSips nodeLinux"
    using prefersSips_policy [of nodeLinux nodeLinux, THEN conjunct1]
    by (simp add: nodeLinux_def)
  have forced: "prefersSips ?forced"
    using prefersSips_policy [of ?forced ?forced, THEN conjunct1]
    by (simp add: nodeLinux_def)
  have same: "prefersSips ?loaded = prefersSips bunDarwin"
    using prefersSips_policy [of ?loaded bunDarwin, THEN conjunct2]
    by (simp add: bunDarwin_def)
  from bun node forced same show ?thesis by simp
qed

text \<open>
  The claim as stated fails: with the override set to the external tool, the tool is
  preferred on Node and on Linux.
\<close>

theorem prefersSips_override_counterexample:
  "prefersSips (nodeLinux\<lparr>CLAWDIS_IMAGE_BACKEND := Some ''sips''\<rparr>) \<and>
   \<not> (CLAWDIS_IMAGE_BACKEND (nodeLinux\<lparr>CLAWDIS_IMAGE_BACKEND := Some ''sips''\<rparr>) \<noteq> Some ''sharp'' \<and>
      isBun (nodeLinux\<lparr>CLAWDIS_IMAGE_BACKEND := Some ''sips''\<rparr>) \<and>
      platform (nodeLinux\<lparr>CLAWDIS_IMAGE_BACKEND := Some ''sips''\<rparr>) = ''darwin'')"
  by (simp add: prefersSips_def isBun_def nodeLinux_def)

section \<open>The MIME sniffer\<close>

lemma length_bytesOfSextets: "length (bytesOfSextets xs) = (3 * length xs) div 4"
  by (induction xs rule: bytesOfSextets.induct) simp_all

lemma length_sextets: "length (sextets s) \<le> length s"
  by (induction s) (auto split: option.splits)

lemma length_bufferFromBase64: "length (bufferFromBase64 s) \<le> (3 * length s) div 4"
proof -
  have "(3 * length (sextets s)) div 4 \<le> (3 * length s) div 4"
    using length_sextets [of s] by (intro div_le_mono) simp
  then show ?thesis by (simp add: bufferFromBase64_def length_bytesOfSextets)
qed

text \<open>
  C6 (as amended). The sniffer trims the string, keeps at most its first 256 characters
  and cuts the slice down to a multiple of four characters before it decodes: decoding is
  total, and the slice gives at most 192 bytes. It answers unknown exactly when the slice
  has fewer than 8 characters, that is when the trimmed string has; a longer slice goes to
  the classifier whatever the number of bytes it decodes to, and an exception of the
  classifier is an unknown answer.
\<close>

theorem sniffMimeFromBase64_slice:
  "(let trimmed = trim b64; n = 4 * (min 256 (length trimmed) div 4) in
      n \<le> 256 \<and> n \<le> length trimmed \<and> n mod 4 = 0 \<and>
      (n < 8 \<longleftrightarrow> length trimmed < 8) \<and>
      length (bufferFromBase64 (take n trimmed)) \<le> 192 \<and>
      sniffMimeFromBase64 e b64 =
        (if n < 8 then None
         else case detectMime e (bufferFromBase64 (take n trimmed)) of
                Inl err \<Rightarrow> None
              | Inr sniffed \<Rightarrow> sniffed))"
proof -
  define t where "t = trim b64"
  define n where "n = 4 * (min 256 (length t) div 4)"
  have n_alt: "min 256 (length t) - min 256 (length t) mod 4 = n"
    unfolding n_def by (simp add: minus_mod_eq_mult_div)
  have b1: "n \<le> 256" unfolding n_def by simp
  have b2: "n \<le> length t" unfolding n_def by simp
  have b3: "n mod 4 = 0" unfolding n_def by simp
  have b4: "n < 8 \<longleftrightarrow> length t < 8" unfolding n_def by (auto simp: min_def)
  have "length (bufferFromBase64 (take n t)) \<le> (3 * length (take n t)) div 4"
    by (rule length_bufferFromBase64)
  also have "\<dots> \<le> (3 * 256) div 4"
    using b1 by (intro div_le_mono) simp
  finally have b5: "length (bufferFromBase64 (take n t)) \<le> 192" by simp
  have empty: "t = [] \<Longrightarrow> n < 8" unfolding n_def by simp
  have b6: "sniffMimeFromBase64 e b64 =
        (if n < 8 then None
         else case detectMime e (bufferFromBase64 (take n t)) of
                Inl err \<Rightarrow> None
              | Inr sniffed \<Rightarrow> sniffed)"
    using empty by (auto simp: sniffMimeFromBase64_def Let_def t_def [symmetric] n_alt)
  show ?thesis
    unfolding Let_def t_def [symmetric] n_def [symmetric]
    by (intro conjI b1 b2 b3 b4 b5 b6)
qed

text \<open>
  The claim as stated fails: eight characters decode to six bytes, fewer than eight, and
  the slice is classified all the same.
\<close>

theorem sniffMimeFromBase64_six_bytes_counterexample:
  "sniffMimeFromBase64 nodeLinux ''/9j/4AAQ'' = Some ''image/jpeg'' \<and>
   length (bufferFromBase64 (trim ''/9j/4AAQ'')) = 6"
  by code_simp


theorem sniffMimeFromBase64_slice_witness:
  "sniffMimeFromBase64 nodeLinux ''iVBOR'' = None \<and>
   sniffMimeFromBase64 nodeLinux '' iVBORw0KGgoAAA '' = Some ''image/png''"
proof -
  have t1: "trim ''iVBOR'' = ''iVBOR''"
    by code_simp
  have short: "sniffMimeFromBase64 nodeLinux ''iVBOR'' = None"
    using sniffMimeFromBase64_slice [of "''iVBOR''" nodeLinux]
    by (simp add: Let_def t1)
  have t2: "trim '' iVBORw0KGgoAAA '' = ''iVBORw0KGgoAAA''"
    by code_simp
  have d: "detectMime nodeLinux (bufferFromBase64 ''iVBORw0KGgoA'') = Inr (Some ''image/png'')"
    by code_simp
  have long: "sniffMimeFromBase64 nodeLinux '' iVBORw0KGgoAAA '' = Some ''image/png''"
    using sniffMimeFromBase64_slice [of "'' iVBORw0KGgoAAA ''" nodeLinux]
    by (simp add: Let_def t2 d)
  from short long show ?thesis by simp
qed

section \<open>The normalizer of read results\<close>

lemma find_isImageBlock_cases:
  "find isImageBlock bs = None \<or>
   (\<exists>d m. find isImageBlock bs = Some (Image (Some d) (Some m)))"
proof (cases "find isImageBlock bs")
  case None
  then show ?thesis by simp
next
  case (Some b)
  then have "isImageBlock b" by (auto simp: find_Some_iff)
  then obtain d m where "b = Image (Some d) (Some m)"
    by (auto simp: isImageBlock_def split: block.splits option.splits)
  with Some show ?thesis by simp
qed

lemma normalize_no_image:
  "find isImageBlock (case content result of Some c \<Rightarrow> c | None \<Rightarrow> []) = None \<Longrightarrow>
   normalizeReadImageResult e result filePath = Inr result"
  by (simp add: normalizeReadImageResult_def Let_def)

lemma normalize_image:
  "find isImageBlock (case content result of Some c \<Rightarrow> c | None \<Rightarrow> []) =
     Some (Image (Some d) (Some m)) \<Longrightarrow>
   normalizeReadImageResult e result filePath =
     (if trim d = [] then
        Inl (newError (''read: image payload is empty ('' @ filePath @ '')''))
      else
        (case sniffMimeFromBase64 e d of
           None \<Rightarrow> Inr result
         | Some sniffed \<Rightarrow>
             if sniffed = [] then Inr result
             else if \<not> startsWith sniffed ''image/'' then
               Inl (newError (''read: file looks like '' @ sniffed @
                 '' but was treated as '' @ m @ '' ('' @ filePath @ '')''))
             else if sniffed = m then Inr result
             else Inr (result\<lparr>content := Some (map (rewriteBlock sniffed)
                    (case content result of Some c \<Rightarrow> c | None \<Rightarrow> []))\<rparr>)))"
  by (simp add: normalizeReadImageResult_def Let_def)

text \<open>
  C3. \<open>normalizeReadImageResult\<close> raises exactly when the first well-formed image
  block has a payload that is empty after trimming, or one whose sniffed classification
  is a type that does not start with \<open>image/\<close>; the error of the empty payload has
  the file path in its message; in every other case the call returns a result.
\<close>

theorem normalizeReadImageResult_raises:
  "((\<exists>err. normalizeReadImageResult e result filePath = Inl err) \<longleftrightarrow>
      (\<exists>d m. find isImageBlock (case content result of Some c \<Rightarrow> c | None \<Rightarrow> []) =
                 Some (Image (Some d) (Some m)) \<and>
             (trim d = [] \<or>
              (\<exists>s. sniffMimeFromBase64 e d = Some s \<and> s \<noteq> [] \<and>
                   \<not> startsWith s ''image/'')))) \<and>
   (\<forall>d m. find isImageBlock (case content result of Some c \<Rightarrow> c | None \<Rightarrow> []) =
              Some (Image (Some d) (Some m)) \<and> trim d = [] \<longrightarrow>
          (\<exists>pre post. normalizeReadImageResult e result filePath =
             Inl (Error ''Error'' (pre @ filePath @ post)))) \<and>
   ((\<exists>err. normalizeReadImageResult e result filePath = Inl err) \<or>
    (\<exists>r. normalizeReadImageResult e result filePath = Inr r))"
proof (intro conjI)
  let ?c = "case content result of Some c \<Rightarrow> c | None \<Rightarrow> []"
  show "(\<exists>err. normalizeReadImageResult e result filePath = Inl err) \<longleftrightarrow>
      (\<exists>d m. find isImageBlock ?c = Some (Image (Some d) (Some m)) \<and>
             (trim d = [] \<or>
              (\<exists>s. sniffMimeFromBase64 e d = Some s \<and> s \<noteq> [] \<and>
                   \<not> startsWith s ''image/'')))"
    using find_isImageBlock_cases [of ?c]
    by (auto simp: normalize_no_image normalize_image split: option.splits if_splits)
  show "\<forall>d m. find isImageBlock ?c = Some (Image (Some d) (Some m)) \<and> trim d = [] \<longrightarrow>
          (\<exists>pre post. normalizeReadImageResult e result filePath =
             Inl (Error ''Error'' (pre @ filePath @ post)))"
  proof (intro allI impI)
    fix d m
    assume "find isImageBlock ?c = Some (Image (Some d) (Some m)) \<and> trim d = []"
    then have "normalizeReadImageResult e result filePath =
        Inl (Error ''Error'' (''read: image payload is empty ('' @ filePath @ '')''))"
      by (simp add: normalize_image newError_def)
    then show "\<exists>pre post. normalizeReadImageResult e result filePath =
             Inl (Error ''Error'' (pre @ filePath @ post))"
      by blast
  qed
  show "(\<exists>err. normalizeReadImageResult e result filePath = Inl err) \<or>
    (\<exists>r. normalizeReadImageResult e result filePath = Inr r)"
    by (cases "normalizeReadImageResult e result filePath") auto
qed


theorem normalizeReadImageResult_raises_witness:
  "normalizeReadImageResult nodeLinux
     \<lparr>content = Some [Text (Some ''x''), Image (Some ''  '') (Some ''image/png'')],
      details = []\<rparr> ''/tmp/a.png'' =
     Inl (Error ''Error'' ''read: image payload is empty (/tmp/a.png)'') \<and>
   (\<exists>err. normalizeReadImageResult nodeLinux
      \<lparr>content = Some [Image (Some ''JVBERi0xLjQK'') (Some ''image/png'')],
       details = []\<rparr> ''/tmp/a.png'' = Inl err) \<and>
   (\<exists>r. normalizeReadImageResult nodeLinux
      \<lparr>content = Some [Image (Some ''iVBORw0KGgoA'') (Some ''image/png'')],
       details = []\<rparr> ''/tmp/a.png'' = Inr r)"
proof -
  let ?empty = "\<lparr>content = Some [Text (Some ''x''), Image (Some ''  '') (Some ''image/png'')],
      details = []\<rparr>"
  let ?pdf = "\<lparr>content = Some [Image (Some ''JVBERi0xLjQK'') (Some ''image/png'')],
       details = []\<rparr>"
  let ?png = "\<lparr>content = Some [Image (Some ''iVBORw0KGgoA'') (Some ''image/png'')],
       details = []\<rparr>"
  have t: "trim ''  '' = []" "trim ''JVBERi0xLjQK'' \<noteq> []" "trim ''iVBORw0KGgoA'' \<noteq> []"
    by code_simp+
  have s1: "sniffMimeFromBase64 nodeLinux ''JVBERi0xLjQK'' = Some ''application/pdf''"
    by code_simp
  have s2: "sniffMimeFromBase64 nodeLinux ''iVBORw0KGgoA'' = Some ''image/png''"
    by code_simp
  have sw: "\<not> startsWith ''application/pdf'' ''image/''" "startsWith ''image/png'' ''image/''"
    by (simp_all add: startsWith_def)
  have "\<exists>err. normalizeReadImageResult nodeLinux ?empty ''/tmp/a.png'' = Inl err"
    using normalizeReadImageResult_raises [of nodeLinux ?empty "''/tmp/a.png''", THEN conjunct1]
    by (simp add: isImageBlock_def t)
  moreover have "\<exists>pre post. normalizeReadImageResult nodeLinux ?empty ''/tmp/a.png'' =
      Inl (Error ''Error'' (pre @ ''/tmp/a.png'' @ post))"
    using normalizeReadImageResult_raises [of nodeLinux ?empty "''/tmp/a.png''",
        THEN conjunct2, THEN conjunct1]
    by (simp add: isImageBlock_def t)
  moreover have "normalizeReadImageResult nodeLinux ?empty ''/tmp/a.png'' =
     Inl (Error ''Error'' ''read: image payload is empty (/tmp/a.png)'')"
    by (simp add: normalize_image isImageBlock_def t newError_def)
  moreover have "\<exists>err. normalizeReadImageResult nodeLinux ?pdf ''/tmp/a.png'' = Inl err"
    using normalizeReadImageResult_raises [of nodeLinux ?pdf "''/tmp/a.png''", THEN conjunct1]
    by (simp add: isImageBlock_def t s1 sw)
  moreover have "\<not> (\<exists>err. normalizeReadImageResult nodeLinux ?png ''/tmp/a.png'' = Inl err)"
    using normalizeReadImageResult_raises [of nodeLinux ?png "''/tmp/a.png''", THEN conjunct1]
    by (simp add: isImageBlock_def t s2 sw)
  then have "\<exists>r. normalizeReadImageResult nodeLinux ?png ''/tmp/a.png'' = Inr r"
    using normalizeReadImageResult_raises [of nodeLinux ?png "''/tmp/a.png''",
        THEN conjunct2, THEN conjunct2]
    by blast
  ultimately show ?thesis by blast
qed

lemma rewriteBlock_cases:
  "rewriteBlock s b =
     (case b of
        Image d0 m0 \<Rightarrow> Image d0 (Some s)
      | Text None \<Rightarrow> Text None
      | Text (Some t) \<Rightarrow>
          Text (Some (if startsWith t ''Read image file ['' \<and> endsWith t '']''
                      then ''Read image file ['' @ s @ '']'' else t))
      | Other v \<Rightarrow> Other v)"
  by (simp add: rewriteBlock_def rewriteReadImageHeader_def split: block.splits option.splits)

text \<open>
  C5 (as amended). When the sniffed type is an image type other than the declared one,
  the result has the same blocks in the same places, every image block with the sniffed
  type, and a text block rewritten to \<open>Read image file [<sniffed>]\<close> when it starts
  with \<open>Read image file [\<close> and ends with \<open>]\<close>, whatever stands between; every
  other block is unchanged. When the sniff is unknown or empty, or yields the declared
  type and that is an image type, the result is returned as it is.
\<close>

theorem normalizeReadImageResult_rewrite:
  assumes found: "find isImageBlock (case content result of Some c \<Rightarrow> c | None \<Rightarrow> []) =
      Some (Image (Some d) (Some m))"
    and payload: "trim d \<noteq> []"
  shows "(\<forall>s. sniffMimeFromBase64 e d = Some s \<and> startsWith s ''image/'' \<and> s \<noteq> m \<longrightarrow>
      (\<exists>c'. normalizeReadImageResult e result filePath = Inr (result\<lparr>content := Some c'\<rparr>) \<and>
        length c' = length (case content result of Some c \<Rightarrow> c | None \<Rightarrow> []) \<and>
        (\<forall>i < length c'.
           c' ! i =
             (case (case content result of Some c \<Rightarrow> c | None \<Rightarrow> []) ! i of
                Image d0 m0 \<Rightarrow> Image d0 (Some s)
              | Text None \<Rightarrow> Text None
              | Text (Some t) \<Rightarrow>
                  Text (Some (if startsWith t ''Read image file ['' \<and> endsWith t '']''
                              then ''Read image file ['' @ s @ '']'' else t))
              | Other v \<Rightarrow> Other v)))) \<and>
    (sniffMimeFromBase64 e d = None \<or> sniffMimeFromBase64 e d = Some [] \<or>
     (sniffMimeFromBase64 e d = Some m \<and> startsWith m ''image/'') \<longrightarrow>
       normalizeReadImageResult e result filePath = Inr result)"
proof (intro conjI allI impI)
  let ?c = "case content result of Some c \<Rightarrow> c | None \<Rightarrow> []"
  fix s
  assume a: "sniffMimeFromBase64 e d = Some s \<and> startsWith s ''image/'' \<and> s \<noteq> m"
  then have "s \<noteq> []" by (auto simp: startsWith_def)
  with a payload have eq: "normalizeReadImageResult e result filePath =
      Inr (result\<lparr>content := Some (map (rewriteBlock s) ?c)\<rparr>)"
    by (simp add: normalize_image [OF found])
  show "\<exists>c'. normalizeReadImageResult e result filePath = Inr (result\<lparr>content := Some c'\<rparr>) \<and>
        length c' = length ?c \<and>
        (\<forall>i < length c'.
           c' ! i =
             (case ?c ! i of
                Image d0 m0 \<Rightarrow> Image d0 (Some s)
              | Text None \<Rightarrow> Text None
              | Text (Some t) \<Rightarrow>
                  Text (Some (if startsWith t ''Read image file ['' \<and> endsWith t '']''
                              then ''Read image file ['' @ s @ '']'' else t))
              | Other v \<Rightarrow> Other v))"
    by (rule exI [of _ "map (rewriteBlock s) ?c"]) (simp add: eq rewriteBlock_cases)
next
  assume "sniffMimeFromBase64 e d = None \<or> sniffMimeFromBase64 e d = Some [] \<or>
     (sniffMimeFromBase64 e d = Some m \<and> startsWith m ''image/'')"
  with payload show "normalizeReadImageResult e result filePath = Inr result"
    by (auto simp: normalize_image [OF found])
qed


text \<open>
  The claim as stated fails twice: a header naming a type that was never declared is
  rewritten too, and a sniff that yields the declared type raises when that type is no
  image type.
\<close>

theorem rewriteReadImageHeader_counterexample:
  "normalizeReadImageResult nodeLinux
     \<lparr>content = Some [Text (Some ''Read image file [image/gif]''),
                      Image (Some ''iVBORw0KGgoA'') (Some ''image/jpeg'')],
      details = []\<rparr> ''/tmp/a.jpg'' =
   Inr \<lparr>content = Some [Text (Some ''Read image file [image/png]''),
                        Image (Some ''iVBORw0KGgoA'') (Some ''image/png'')],
        details = []\<rparr> \<and>
   normalizeReadImageResult nodeLinux
     \<lparr>content = Some [Image (Some ''JVBERi0xLjQK'') (Some ''application/pdf'')],
      details = []\<rparr> ''/tmp/a.pdf'' =
   Inl (Error ''Error''
     ''read: file looks like application/pdf but was treated as application/pdf (/tmp/a.pdf)'')"
  by code_simp

theorem normalizeReadImageResult_rewrite_witness:
  "normalizeReadImageResult nodeLinux
     \<lparr>content = Some [Text (Some ''Read image file [image/jpeg]''),
                      Image (Some ''iVBORw0KGgoA'') (Some ''image/jpeg''),
                      Text (Some ''Read image file'')],
      details = []\<rparr> ''/tmp/a.jpg'' =
   Inr \<lparr>content = Some [Text (Some ''Read image file [image/png]''),
                        Image (Some ''iVBORw0KGgoA'') (Some ''image/png''),
                        Text (Some ''Read image file'')],
        details = []\<rparr> \<and>
   normalizeReadImageResult nodeLinux
     \<lparr>content = Some [Image (Some ''iVBORw0KGgoA'') (Some ''image/png'')],
      details = []\<rparr> ''/tmp/a.png'' =
   Inr \<lparr>content = Some [Image (Some ''iVBORw0KGgoA'') (Some ''image/png'')],
        details = []\<rparr>"
proof -
  let ?c = "[Text (Some ''Read image file [image/jpeg]''),
             Image (Some ''iVBORw0KGgoA'') (Some ''image/jpeg''),
             Text (Some ''Read image file'')]"
  let ?r = "\<lparr>content = Some ?c, details = []\<rparr>"
  let ?same = "\<lparr>content = Some [Image (Some ''iVBORw0KGgoA'') (Some ''image/png'')],
      details = []\<rparr>"
  have t: "trim ''iVBORw0KGgoA'' \<noteq> []"
    by code_simp
  have s: "sniffMimeFromBase64 nodeLinux ''iVBORw0KGgoA'' = Some ''image/png''"
    by code_simp
  have sw: "startsWith ''image/png'' ''image/''"
    by (simp add: startsWith_def)
  have h: "startsWith ''Read image file [image/jpeg]'' ''Read image file ['' \<and>
      endsWith ''Read image file [image/jpeg]'' '']''"
      "\<not> startsWith ''Read image file'' ''Read image file [''"
    by (simp_all add: startsWith_def endsWith_def)
  have f: "find isImageBlock (case content ?r of Some c \<Rightarrow> c | None \<Rightarrow> []) =
      Some (Image (Some ''iVBORw0KGgoA'') (Some ''image/jpeg''))"
    by (simp add: isImageBlock_def)
  obtain c' where c': "normalizeReadImageResult nodeLinux ?r ''/tmp/a.jpg'' =
        Inr (?r\<lparr>content := Some c'\<rparr>)" "length c' = 3"
      "\<forall>i < length c'. c' ! i =
         (case ?c ! i of
            Image d0 m0 \<Rightarrow> Image d0 (Some ''image/png'')
          | Text None \<Rightarrow> Text None
          | Text (Some t) \<Rightarrow>
              Text (Some (if startsWith t ''Read image file ['' \<and> endsWith t '']''
                          then ''Read image file ['' @ ''image/png'' @ '']'' else t))
          | Other v \<Rightarrow> Other v)"
    using normalizeReadImageResult_rewrite [OF f t, of nodeLinux "''/tmp/a.jpg''",
        THEN conjunct1, rule_format, of "''image/png''"] s sw
    by auto
  from c'(2,3) have "c' ! 0 = Text (Some ''Read image file [image/png]'')"
      "c' ! 1 = Image (Some ''iVBORw0KGgoA'') (Some ''image/png'')"
      "c' ! 2 = Text (Some ''Read image file'')"
    using h by simp_all
  with c'(2) have "c' = [Text (Some ''Read image file [image/png]''),
      Image (Some ''iVBORw0KGgoA'') (Some ''image/png''), Text (Some ''Read image file'')]"
    by (simp add: list_eq_iff_nth_eq less_Suc_eq numeral_3_eq_3 numeral_2_eq_2)
  with c'(1) have first: "normalizeReadImageResult nodeLinux ?r ''/tmp/a.jpg'' =
      Inr \<lparr>content = Some [Text (Some ''Read image file [image/png]''),
                        Image (Some ''iVBORw0KGgoA'') (Some ''image/png''),
                        Text (Some ''Read image file'')],
        details = []\<rparr>"
    by simp
  have f2: "find isImageBlock (case content ?same of Some c \<Rightarrow> c | None \<Rightarrow> []) =
      Some (Image (Some ''iVBORw0KGgoA'') (Some ''image/png''))"
    by (simp add: isImageBlock_def)
  have second: "normalizeReadImageResult nodeLinux ?same ''/tmp/a.png'' = Inr ?same"
    using normalizeReadImageResult_rewrite [OF f2 t, of nodeLinux "''/tmp/a.png''",
        THEN conjunct2] s sw
    by simp
  from first second show ?thesis by simp
qed


section \<open>The metadata probe and the JPEG resize\<close>

lemma sipsMetadataFromBuffer_positive:
  "sipsMetadataFromBuffer e buf = Inr (Some meta) \<Longrightarrow> 0 < width meta \<and> 0 < height meta"
  by (auto simp: sipsMetadataFromBuffer_def
      split: sum.splits option.splits if_splits number.splits)

lemma getImageMetadata_positive:
  "getImageMetadata e buf = Inr (Some meta) \<Longrightarrow> 0 < width meta \<and> 0 < height meta"
  by (auto simp: getImageMetadata_def dest: sipsMetadataFromBuffer_positive
      split: sum.splits option.splits if_splits number.splits prod.splits)

lemma getImageMetadata_total: "\<exists>r. getImageMetadata e buf = Inr r"
  by (auto simp: getImageMetadata_def
      split: sum.splits option.splits if_splits number.splits prod.splits)

text \<open>
  C9. With the external tool preferred and \<open>withoutEnlargement\<close> not switched off,
  \<open>resizeToJpeg\<close> probes the buffer, and when the probe reports a width and a height
  that are both at most \<open>maxSide\<close>, the tool is run with the larger of the two as
  its target, which is at most \<open>maxSide\<close>, and not with \<open>maxSide\<close> itself.
\<close>

theorem resizeToJpeg_without_enlargement:
  assumes "prefersSips e"
    and "withoutEnlargement \<noteq> Some False"
    and "getImageMetadata e buf = Inr (Some meta)"
    and "width meta \<le> maxSide" and "height meta \<le> maxSide"
  shows "resizeToJpeg e buf maxSide quality withoutEnlargement =
           sipsResample e buf (max (width meta) (height meta)) (max 1 (min 100 quality)) \<and>
         max (width meta) (height meta) \<le> maxSide"
proof -
  define maxDim where "maxDim = max (width meta) (height meta)"
  from assms(3) have "0 < width meta" "0 < height meta"
    using getImageMetadata_positive by blast+
  with assms(4,5) have bounds: "0 < maxDim" "maxDim \<le> maxSide" "max 1 maxDim = maxDim"
    by (simp_all add: maxDim_def)
  have "resizeToJpeg e buf maxSide quality withoutEnlargement =
      sipsResizeToJpeg e buf maxDim quality"
    using assms(1,2,3) bounds(1,2)
    by (simp add: resizeToJpeg_def Let_def maxDim_def [symmetric])
  also have "\<dots> = sipsResample e buf maxDim (max 1 (min 100 quality))"
    by (simp only: sipsResizeToJpeg_def bounds(3))
  finally show ?thesis
    using bounds(2) by (simp add: maxDim_def)
qed

theorem resizeToJpeg_without_enlargement_witness:
  "resizeToJpeg bunDarwin [] 2000 85 None = Inr [0xFF, 0xD8, 0xFF, 2, 128]"
proof -
  have p: "prefersSips bunDarwin"
    by (simp add: prefersSips_def isBun_def bunDarwin_def)
  have q: "sipsQuery bunDarwin [] = Inr ''  pixelWidth: 640\<newline>  pixelHeight: 480\<newline>''"
    by (simp add: bunDarwin_def)
  have found: "matchDigitsAfter ''pixelWidth:''
        ''  pixelWidth: 640\<newline>  pixelHeight: 480\<newline>'' = Some ''640''"
      "matchDigitsAfter ''pixelHeight:''
        ''  pixelWidth: 640\<newline>  pixelHeight: 480\<newline>'' = Some ''480''"
    by code_simp+
  have digits: "parseInt ''640'' = toDouble 640" "parseInt ''480'' = toDouble 480"
    by (simp_all add: parseInt_def)
  have doubles: "toDouble 640 = Finite 640" "toDouble 480 = Finite 480"
    by (simp_all add: toDouble_def)
  have m: "getImageMetadata bunDarwin [] = Inr (Some \<lparr>width = 640, height = 480\<rparr>)"
    by (simp add: getImageMetadata_def sipsMetadataFromBuffer_def p q found digits doubles)
  have r: "sipsResample bunDarwin [] 640 85 = Inr [0xFF, 0xD8, 0xFF, 2, 128]"
    by code_simp
  show ?thesis
    using resizeToJpeg_without_enlargement [OF p _ m, of None 2000 85] r
    by simp
qed

section \<open>Encoding and decoding base64\<close>










section \<open>The resize decision\<close>

lemma resizeImageBase64IfNeeded_unknown:
  "getImageMetadata e (bufferFromBase64 b64) = Inr None \<Longrightarrow>
   resizeImageBase64IfNeeded e b64 m n = Inr \<lparr>base64 = b64, resultMime = m, resized = False\<rparr>"
  by (simp add: resizeImageBase64IfNeeded_def)

lemma resizeImageBase64IfNeeded_within:
  "getImageMetadata e (bufferFromBase64 b64) = Inr (Some meta) \<Longrightarrow>
   width meta \<le> n \<Longrightarrow> height meta \<le> n \<Longrightarrow>
   resizeImageBase64IfNeeded e b64 m n = Inr \<lparr>base64 = b64, resultMime = m, resized = False\<rparr>"
  by (simp add: resizeImageBase64IfNeeded_def)

lemma resizeImageBase64IfNeeded_over:
  "getImageMetadata e (bufferFromBase64 b64) = Inr (Some meta) \<Longrightarrow>
   n < width meta \<or> n < height meta \<Longrightarrow>
   resizeImageBase64IfNeeded e b64 m n =
     (case resizedBytes e (bufferFromBase64 b64) m n of
        Inl err \<Rightarrow> Inl err
      | Inr bytes \<Rightarrow>
          (case detectMime e (take 256 bytes) of
             Inl err \<Rightarrow> Inl err
           | Inr sniffed \<Rightarrow>
               Inr \<lparr>base64 = toBase64 bytes,
                    resultMime = (case sniffed of
                                    Some s \<Rightarrow> if startsWith s ''image/'' then s else m
                                  | None \<Rightarrow> m),
                    resized = True\<rparr>))"
  unfolding resizeImageBase64IfNeeded_def Let_def by auto

lemma resizedBytes_error:
  "resizedBytes e buf m n = Inl err \<longleftrightarrow>
     (\<exists>x. nativeResize e buf m n = Inl x) \<and> resizeToJpeg e buf n 85 (Some True) = Inl err"
  by (cases "nativeResize e buf m n") auto

lemma resizeImageBase64IfNeeded_error:
  "resizeImageBase64IfNeeded e b64 m n = Inl err \<longleftrightarrow>
     (\<exists>meta. getImageMetadata e (bufferFromBase64 b64) = Inr (Some meta) \<and>
        (n < width meta \<or> n < height meta) \<and>
        (resizedBytes e (bufferFromBase64 b64) m n = Inl err \<or>
         (\<exists>bytes. resizedBytes e (bufferFromBase64 b64) m n = Inr bytes \<and>
            detectMime e (take 256 bytes) = Inl err)))"
proof -
  obtain probe where probe: "getImageMetadata e (bufferFromBase64 b64) = Inr probe"
    using getImageMetadata_total by blast
  show ?thesis
  proof (cases probe)
    case None
    with probe show ?thesis
      by (simp add: resizeImageBase64IfNeeded_unknown)
  next
    case (Some meta)
    show ?thesis
    proof (cases "width meta \<le> n \<and> height meta \<le> n")
      case True
      with probe Some show ?thesis
        by (auto simp: resizeImageBase64IfNeeded_within)
    next
      case False
      then have over: "n < width meta \<or> n < height meta" by auto
      from probe Some have p: "getImageMetadata e (bufferFromBase64 b64) = Inr (Some meta)"
        by simp
      show ?thesis
        unfolding resizeImageBase64IfNeeded_over [OF p over]
        using p over
        by (cases "resizedBytes e (bufferFromBase64 b64) m n") (auto split: sum.splits)
    qed
  qed
qed




lemma getImageMetadata_detectMime:
  "getImageMetadata (e\<lparr>detectMime := classify\<rparr>) buf = getImageMetadata e buf"
proof -
  have p: "prefersSips (e\<lparr>detectMime := classify\<rparr>) = prefersSips e"
    by (simp add: prefersSips_def isBun_def)
  have s: "sipsMetadataFromBuffer (e\<lparr>detectMime := classify\<rparr>) buf =
      sipsMetadataFromBuffer e buf"
    by (simp add: sipsMetadataFromBuffer_def)
  show ?thesis
    by (simp add: getImageMetadata_def p s split: option.split)
qed

text \<open>
  C10. When the probed size is over the threshold and the native pipeline succeeds, the
  bytes of the result are those the library returns for the encoding chosen from the
  lower-cased declared type alone: JPEG for \<open>image/jpeg\<close> and \<open>image/jpg\<close>,
  WEBP for \<open>image/webp\<close>, PNG for everything else. This holds for every
  classifier: the sniffed content has no part in the choice.
\<close>

theorem native_encoding_from_declared_type:
  assumes "getImageMetadata e (bufferFromBase64 b64) = Inr (Some meta)"
    and "n < width meta \<or> n < height meta"
    and "sharpImport e = None"
    and "sharpToBuffer e (bufferFromBase64 b64)
           \<lparr>resizeWidth = n, resizeHeight = n, resizeWithoutEnlargement = True\<rparr>
           (if toLowerCase m = ''image/jpeg'' \<or> toLowerCase m = ''image/jpg'' then Jpeg 85 False
            else if toLowerCase m = ''image/webp'' then Webp 85
            else Png) = Inr bytes"
  shows "resizeImageBase64IfNeeded (e\<lparr>detectMime := classify\<rparr>) b64 m n =
           (case classify (take 256 bytes) of
              Inl err \<Rightarrow> Inl err
            | Inr sniffed \<Rightarrow>
                Inr \<lparr>base64 = toBase64 bytes,
                     resultMime = (case sniffed of
                                     Some s \<Rightarrow> if startsWith s ''image/'' then s else m
                                   | None \<Rightarrow> m),
                     resized = True\<rparr>)"
proof -
  let ?e = "e\<lparr>detectMime := classify\<rparr>"
  have probe: "getImageMetadata ?e (bufferFromBase64 b64) = Inr (Some meta)"
    using assms(1) by (simp only: getImageMetadata_detectMime)
  have enc: "sharpToBuffer ?e (bufferFromBase64 b64)
           \<lparr>resizeWidth = n, resizeHeight = n, resizeWithoutEnlargement = True\<rparr>
           (sharpEncodingFor (toLowerCase m)) = Inr bytes"
  proof -
    have "sharpEncodingFor (toLowerCase m) =
        (if toLowerCase m = ''image/jpeg'' \<or> toLowerCase m = ''image/jpg'' then Jpeg 85 False
         else if toLowerCase m = ''image/webp'' then Webp 85
         else Png)"
      by (simp add: sharpEncodingFor_def)
    moreover have "sharpToBuffer ?e = sharpToBuffer e"
      by simp
    ultimately show ?thesis
      using assms(4) by (simp only:)
  qed
  have imp: "sharpImport ?e = None"
    using assms(3) by simp
  show ?thesis
    unfolding resizeImageBase64IfNeeded_over [OF probe assms(2)] imp enc by simp
qed

theorem native_encoding_from_declared_type_witness:
  "resizeImageBase64IfNeeded nodeLinux ''iVBORw0KGgoAAAANSUhEUgAAD6AAAAu4'' ''image/JPEG'' 2000 =
     Inr \<lparr>base64 = ''/9j/4A=='', resultMime = ''image/jpeg'', resized = True\<rparr>"
proof -
  let ?b64 = "''iVBORw0KGgoAAAANSUhEUgAAD6AAAAu4''"
  have probe: "getImageMetadata nodeLinux (bufferFromBase64 ?b64) =
      Inr (Some \<lparr>width = 4000, height = 3000\<rparr>)"
    by code_simp
  have over: "2000 < width \<lparr>width = 4000, height = 3000\<rparr> \<or>
      2000 < height \<lparr>width = 4000, height = 3000\<rparr>"
    by simp
  have imp: "sharpImport nodeLinux = None"
    by (simp add: nodeLinux_def)
  have enc: "sharpToBuffer nodeLinux (bufferFromBase64 ?b64)
           \<lparr>resizeWidth = 2000, resizeHeight = 2000, resizeWithoutEnlargement = True\<rparr>
           (if toLowerCase ''image/JPEG'' = ''image/jpeg'' \<or>
               toLowerCase ''image/JPEG'' = ''image/jpg'' then Jpeg 85 False
            else if toLowerCase ''image/JPEG'' = ''image/webp'' then Webp 85
            else Png) = Inr [0xFF, 0xD8, 0xFF, 0xE0]"
    by code_simp
  have same: "nodeLinux\<lparr>detectMime := detectMimeByMagic\<rparr> = nodeLinux"
    by (simp add: nodeLinux_def)
  have val: "(case detectMimeByMagic (take 256 [0xFF, 0xD8, 0xFF, 0xE0]) of
              Inl err \<Rightarrow> Inl err
            | Inr sniffed \<Rightarrow>
                Inr \<lparr>base64 = toBase64 [0xFF, 0xD8, 0xFF, 0xE0],
                     resultMime = (case sniffed of
                                     Some s \<Rightarrow> if startsWith s ''image/'' then s
                                               else ''image/JPEG''
                                   | None \<Rightarrow> ''image/JPEG''),
                     resized = True\<rparr>) =
      Inr \<lparr>base64 = ''/9j/4A=='', resultMime = ''image/jpeg'', resized = True\<rparr>"
    by code_simp
  show ?thesis
    using native_encoding_from_declared_type [OF probe over imp enc, of detectMimeByMagic]
    unfolding same val .
qed

section \<open>The sanitizer of content blocks\<close>

lemma sanitizeLoop_map:
  "sanitizeLoop e label n bs out = out @ map (pushedBlock e label n) bs"
proof (induction bs arbitrary: out)
  case Nil
  then show ?case by simp
next
  case (Cons b bs)
  then show ?case
    by (simp add: pushedBlock_def Let_def split: block.splits option.splits sum.splits)
qed

lemma sanitizeContentBlocksImages_map:
  "sanitizeContentBlocksImages e blocks label opts =
     Inr (map (pushedBlock e label
       (max (case opts of Some v \<Rightarrow> v | None \<Rightarrow> MAX_IMAGE_DIMENSION_PX) 1)) blocks)"
  by (simp add: sanitizeContentBlocksImages_def sanitizeLoop_map)

lemma pushedBlock_image:
  "pushedBlock e label n (Image (Some d) (Some m)) =
     (if trim d = [] then Text (Some (''['' @ label @ ''] omitted empty image payload''))
      else
        (case resizeImageBase64IfNeeded e (trim d) m n of
           Inr r \<Rightarrow> Image (Some (base64 r)) (Some (resultMime r))
         | Inl err \<Rightarrow>
             Text (Some (''['' @ label @ ''] omitted image payload: '' @ String_of_error err))))"
  by (simp add: pushedBlock_def)

lemma pushedBlock_other: "\<not> isImageBlock b \<Longrightarrow> pushedBlock e label n b = b"
  by (auto simp: pushedBlock_def isImageBlock_def split: block.splits option.splits)

text \<open>
  C2 (as amended). \<open>sanitizeContentBlocksImages\<close> always returns a list, as long
  as its input, and what stands at one place depends on the block at that place only. A
  block that is no well-formed image block stays. An image block with an empty or
  white-space payload becomes the text \<open>[<label>] omitted empty image payload\<close>.
  Any other image block becomes a text exactly when \<open>resizeImageBase64IfNeeded\<close>
  throws, and then the text is \<open>[<label>] omitted image payload: \<close> followed by
  \<open>String(err)\<close>, the name and the message of the error. That happens only for an
  image probed over the threshold, when the fallback resize throws after the native one
  has thrown, or when the classifier throws on the resized bytes. An exception of the
  probe never reaches the sanitizer: the block is forwarded as an image.
\<close>

theorem sanitize_never_raises:
  "(let n = max (case opts of Some v \<Rightarrow> v | None \<Rightarrow> MAX_IMAGE_DIMENSION_PX) 1 in
    \<exists>out. sanitizeContentBlocksImages e blocks label opts = Inr out \<and>
      length out = length blocks \<and>
      (\<forall>i < length blocks.
         (\<not> isImageBlock (blocks ! i) \<longrightarrow> out ! i = blocks ! i) \<and>
         (\<forall>d m. blocks ! i = Image (Some d) (Some m) \<longrightarrow>
            (trim d = [] \<longrightarrow>
               out ! i = Text (Some (''['' @ label @ ''] omitted empty image payload''))) \<and>
            (trim d \<noteq> [] \<longrightarrow>
               (\<forall>err. resizeImageBase64IfNeeded e (trim d) m n = Inl err \<longrightarrow>
                  out ! i = Text (Some (''['' @ label @ ''] omitted image payload: '' @
                    String_of_error err))) \<and>
               (\<forall>r. resizeImageBase64IfNeeded e (trim d) m n = Inr r \<longrightarrow>
                  out ! i = Image (Some (base64 r)) (Some (resultMime r))) \<and>
               (\<forall>err. resizeImageBase64IfNeeded e (trim d) m n = Inl err \<longleftrightarrow>
                  (\<exists>meta. getImageMetadata e (bufferFromBase64 (trim d)) = Inr (Some meta) \<and>
                     (n < width meta \<or> n < height meta) \<and>
                     (((\<exists>x. nativeResize e (bufferFromBase64 (trim d)) m n = Inl x) \<and>
                       resizeToJpeg e (bufferFromBase64 (trim d)) n 85 (Some True) = Inl err) \<or>
                      (\<exists>bytes. resizedBytes e (bufferFromBase64 (trim d)) m n = Inr bytes \<and>
                         detectMime e (take 256 bytes) = Inl err)))) \<and>
               ((if prefersSips e
                 then \<exists>x. sipsMetadataFromBuffer e (bufferFromBase64 (trim d)) = Inl x
                 else sharpImport e \<noteq> None \<or>
                      (\<exists>x. sharpMetadata e (bufferFromBase64 (trim d)) = Inl x)) \<longrightarrow>
                out ! i = Image (Some (trim d)) (Some m))))))"
proof -
  define n where "n = max (case opts of Some v \<Rightarrow> v | None \<Rightarrow> MAX_IMAGE_DIMENSION_PX) 1"
  define out where "out = map (pushedBlock e label n) blocks"
  have res: "sanitizeContentBlocksImages e blocks label opts = Inr out"
    unfolding n_def out_def by (rule sanitizeContentBlocksImages_map)
  have nth: "out ! i = pushedBlock e label n (blocks ! i)" if "i < length blocks" for i
    using that by (simp add: out_def)
  have thrown: "getImageMetadata e buf = Inr None"
    if "if prefersSips e then \<exists>x. sipsMetadataFromBuffer e buf = Inl x
        else sharpImport e \<noteq> None \<or> (\<exists>x. sharpMetadata e buf = Inl x)" for buf
    using that by (auto simp: getImageMetadata_def split: if_splits option.splits)
  show ?thesis
    unfolding Let_def n_def [symmetric]
  proof (intro exI [of _ out] conjI allI impI)
    show "sanitizeContentBlocksImages e blocks label opts = Inr out" by (rule res)
    show "length out = length blocks" by (simp add: out_def)
  next
    fix i assume "i < length blocks" "\<not> isImageBlock (blocks ! i)"
    then show "out ! i = blocks ! i"
      by (simp add: nth pushedBlock_other)
  next
    fix i d m
    assume "i < length blocks" "blocks ! i = Image (Some d) (Some m)" "trim d = []"
    then show "out ! i = Text (Some (''['' @ label @ ''] omitted empty image payload''))"
      by (simp add: nth pushedBlock_image)
  next
    fix i d m err
    assume "i < length blocks" "blocks ! i = Image (Some d) (Some m)" "trim d \<noteq> []"
      "resizeImageBase64IfNeeded e (trim d) m n = Inl err"
    then show "out ! i = Text (Some (''['' @ label @ ''] omitted image payload: '' @
        String_of_error err))"
      by (simp add: nth pushedBlock_image)
  next
    fix i d m r
    assume "i < length blocks" "blocks ! i = Image (Some d) (Some m)" "trim d \<noteq> []"
      "resizeImageBase64IfNeeded e (trim d) m n = Inr r"
    then show "out ! i = Image (Some (base64 r)) (Some (resultMime r))"
      by (simp add: nth pushedBlock_image)
  next
    fix i d m err
    show "resizeImageBase64IfNeeded e (trim d) m n = Inl err \<longleftrightarrow>
        (\<exists>meta. getImageMetadata e (bufferFromBase64 (trim d)) = Inr (Some meta) \<and>
           (n < width meta \<or> n < height meta) \<and>
           (((\<exists>x. nativeResize e (bufferFromBase64 (trim d)) m n = Inl x) \<and>
             resizeToJpeg e (bufferFromBase64 (trim d)) n 85 (Some True) = Inl err) \<or>
            (\<exists>bytes. resizedBytes e (bufferFromBase64 (trim d)) m n = Inr bytes \<and>
               detectMime e (take 256 bytes) = Inl err)))"
      unfolding resizeImageBase64IfNeeded_error resizedBytes_error ..
  next
    fix i d m
    assume "i < length blocks" "blocks ! i = Image (Some d) (Some m)" "trim d \<noteq> []"
      "if prefersSips e
       then \<exists>x. sipsMetadataFromBuffer e (bufferFromBase64 (trim d)) = Inl x
       else sharpImport e \<noteq> None \<or> (\<exists>x. sharpMetadata e (bufferFromBase64 (trim d)) = Inl x)"
    then show "out ! i = Image (Some (trim d)) (Some m)"
      using thrown [of "bufferFromBase64 (trim d)"]
      by (simp add: nth pushedBlock_image resizeImageBase64IfNeeded_unknown)
  qed
qed

theorem sanitize_never_raises_witness:
  "sanitizeContentBlocksImages nodeNoEncoder
     [Image (Some '' '') (Some ''image/png''), Text (Some ''x''),
      Image (Some ''iVBORw0KGgoAAAANSUhEUgAAD6AAAAu4'') (Some ''image/png''),
      Image (Some ''AAAA'') (Some ''image/png'')]
     ''bash'' None =
   Inr [Text (Some ''[bash] omitted empty image payload''), Text (Some ''x''),
        Text (Some ''[bash] omitted image payload: Error: boom''),
        Image (Some ''AAAA'') (Some ''image/png'')]"
proof -
  let ?e = nodeNoEncoder
  let ?big = "''iVBORw0KGgoAAAANSUhEUgAAD6AAAAu4''"
  let ?blocks = "[Image (Some '' '') (Some ''image/png''), Text (Some ''x''),
      Image (Some ?big) (Some ''image/png''), Image (Some ''AAAA'') (Some ''image/png'')]"
  have t: "trim '' '' = []" "trim ?big = ?big" "trim ''AAAA'' = ''AAAA''"
    by code_simp+
  have n: "max MAX_IMAGE_DIMENSION_PX 1 = 2000"
    by (simp add: MAX_IMAGE_DIMENSION_PX_def)
  have r: "resizeImageBase64IfNeeded ?e ?big ''image/png'' 2000 = Inl (Error ''Error'' ''boom'')"
    by code_simp
  have str: "String_of_error (Error ''Error'' ''boom'') = ''Error: boom''"
    by (simp add: String_of_error_def)
  have np: "\<not> prefersSips ?e"
    by (simp add: prefersSips_def isBun_def nodeNoEncoder_def nodeLinux_def)
  have thrown: "sharpMetadata ?e (bufferFromBase64 ''AAAA'') =
      Inl (Error ''Error'' ''Input buffer contains unsupported image format'')"
    by code_simp
  note T = sanitize_never_raises [of None ?e ?blocks "''bash''", unfolded Let_def option.case n]
  then obtain out where res: "sanitizeContentBlocksImages ?e ?blocks ''bash'' None = Inr out"
    and len: "length out = length ?blocks"
    and all: "\<forall>i < length ?blocks.
         (\<not> isImageBlock (?blocks ! i) \<longrightarrow> out ! i = ?blocks ! i) \<and>
         (\<forall>d m. ?blocks ! i = Image (Some d) (Some m) \<longrightarrow>
            (trim d = [] \<longrightarrow>
               out ! i = Text (Some (''['' @ ''bash'' @ ''] omitted empty image payload''))) \<and>
            (trim d \<noteq> [] \<longrightarrow>
               (\<forall>err. resizeImageBase64IfNeeded ?e (trim d) m 2000 = Inl err \<longrightarrow>
                  out ! i = Text (Some (''['' @ ''bash'' @ ''] omitted image payload: '' @
                    String_of_error err))) \<and>
               (\<forall>r. resizeImageBase64IfNeeded ?e (trim d) m 2000 = Inr r \<longrightarrow>
                  out ! i = Image (Some (base64 r)) (Some (resultMime r))) \<and>
               (\<forall>err. resizeImageBase64IfNeeded ?e (trim d) m 2000 = Inl err \<longleftrightarrow>
                  (\<exists>meta. getImageMetadata ?e (bufferFromBase64 (trim d)) = Inr (Some meta) \<and>
                     (2000 < width meta \<or> 2000 < height meta) \<and>
                     (((\<exists>x. nativeResize ?e (bufferFromBase64 (trim d)) m 2000 = Inl x) \<and>
                       resizeToJpeg ?e (bufferFromBase64 (trim d)) 2000 85 (Some True) = Inl err) \<or>
                      (\<exists>bytes. resizedBytes ?e (bufferFromBase64 (trim d)) m 2000 = Inr bytes \<and>
                         detectMime ?e (take 256 bytes) = Inl err)))) \<and>
               ((if prefersSips ?e
                 then \<exists>x. sipsMetadataFromBuffer ?e (bufferFromBase64 (trim d)) = Inl x
                 else sharpImport ?e \<noteq> None \<or>
                      (\<exists>x. sharpMetadata ?e (bufferFromBase64 (trim d)) = Inl x)) \<longrightarrow>
                out ! i = Image (Some (trim d)) (Some m))))"
    by (elim exE conjE)
  have each: "(\<not> isImageBlock (?blocks ! i) \<longrightarrow> out ! i = ?blocks ! i) \<and>
         (\<forall>d m. ?blocks ! i = Image (Some d) (Some m) \<longrightarrow>
            (trim d = [] \<longrightarrow>
               out ! i = Text (Some (''['' @ ''bash'' @ ''] omitted empty image payload''))) \<and>
            (trim d \<noteq> [] \<longrightarrow>
               (\<forall>err. resizeImageBase64IfNeeded ?e (trim d) m 2000 = Inl err \<longrightarrow>
                  out ! i = Text (Some (''['' @ ''bash'' @ ''] omitted image payload: '' @
                    String_of_error err))) \<and>
               ((if prefersSips ?e
                 then \<exists>x. sipsMetadataFromBuffer ?e (bufferFromBase64 (trim d)) = Inl x
                 else sharpImport ?e \<noteq> None \<or>
                      (\<exists>x. sharpMetadata ?e (bufferFromBase64 (trim d)) = Inl x)) \<longrightarrow>
                out ! i = Image (Some (trim d)) (Some m))))"
    if "i < length ?blocks" for i
    using all [rule_format, OF that] by blast
  have o0: "out ! 0 = Text (Some ''[bash] omitted empty image payload'')"
    using each [of 0] t by simp
  have o1: "out ! 1 = Text (Some ''x'')"
    using each [of 1] by (simp add: isImageBlock_def)
  have o2: "out ! 2 = Text (Some ''[bash] omitted image payload: Error: boom'')"
    using each [of 2] t r str by simp
  have o3: "out ! 3 = Image (Some ''AAAA'') (Some ''image/png'')"
    using each [of 3] t np thrown by simp
  from len o0 o1 o2 o3 have "out = [Text (Some ''[bash] omitted empty image payload''),
      Text (Some ''x''), Text (Some ''[bash] omitted image payload: Error: boom''),
      Image (Some ''AAAA'') (Some ''image/png'')]"
    by (simp add: list_eq_iff_nth_eq less_Suc_eq numeral_3_eq_3 numeral_2_eq_2
        eval_nat_numeral)
  with res show ?thesis by simp
qed

text \<open>
  The claim as stated fails. An exception of the probe does not replace the block: the
  probe returns null and the image is forwarded. An exception of the native resize does
  not either when the fallback succeeds: the block carries the JPEG of the fallback. And
  the text of a replaced block ends with \<open>Error: boom\<close>, the rendering of the error,
  where the message of the error is \<open>boom\<close>.
\<close>

theorem forwarded_after_exception_counterexample:
  "sharpMetadata nodeLinux (bufferFromBase64 ''AAAA'') =
     Inl (Error ''Error'' ''Input buffer contains unsupported image format'') \<and>
   sanitizeContentBlocksImages nodeLinux
     [Image (Some ''AAAA'') (Some ''image/png'')] ''bash'' None =
     Inr [Image (Some ''AAAA'') (Some ''image/png'')] \<and>
   nativeResize nodeMozjpegOnly (bufferFromBase64 ''iVBORw0KGgoAAAANSUhEUgAAD6AAAAu4'')
     ''image/png'' 2000 = Inl (Error ''Error'' ''boom'') \<and>
   sanitizeContentBlocksImages nodeMozjpegOnly
     [Image (Some ''iVBORw0KGgoAAAANSUhEUgAAD6AAAAu4'') (Some ''image/png'')] ''bash'' None =
     Inr [Image (Some ''/9j/4A=='') (Some ''image/jpeg'')] \<and>
   sanitizeContentBlocksImages nodeNoEncoder
     [Image (Some ''iVBORw0KGgoAAAANSUhEUgAAD6AAAAu4'') (Some ''image/png'')] ''bash'' None =
     Inr [Text (Some ''[bash] omitted image payload: Error: boom'')] \<and>
   errMessage (Error ''Error'' ''boom'') = ''boom''"
  by code_simp

text \<open>
  C4 (as amended). An image block with a payload that is not empty, whose probed width and
  height are both at most the threshold, is forwarded at its place without re-encoding:
  its type is unchanged and its data is the payload with the white space at both ends
  removed, so the block is the input block when the payload has no such white space.
\<close>

theorem within_threshold_forwarded:
  assumes "i < length blocks" and "blocks ! i = Image (Some d) (Some m)"
    and "trim d \<noteq> []"
    and "getImageMetadata e (bufferFromBase64 (trim d)) = Inr (Some meta)"
    and "width meta \<le> max (case opts of Some v \<Rightarrow> v | None \<Rightarrow> MAX_IMAGE_DIMENSION_PX) 1"
    and "height meta \<le> max (case opts of Some v \<Rightarrow> v | None \<Rightarrow> MAX_IMAGE_DIMENSION_PX) 1"
  shows "\<exists>out. sanitizeContentBlocksImages e blocks label opts = Inr out \<and>
           out ! i = Image (Some (trim d)) (Some m) \<and>
           (trim d = d \<longrightarrow> out ! i = blocks ! i) \<and>
           resizeImageBase64IfNeeded e (trim d) m
             (max (case opts of Some v \<Rightarrow> v | None \<Rightarrow> MAX_IMAGE_DIMENSION_PX) 1) =
             Inr \<lparr>base64 = trim d, resultMime = m, resized = False\<rparr>"
proof -
  let ?n = "max (case opts of Some v \<Rightarrow> v | None \<Rightarrow> MAX_IMAGE_DIMENSION_PX) 1"
  let ?out = "map (pushedBlock e label ?n) blocks"
  have r: "resizeImageBase64IfNeeded e (trim d) m ?n =
      Inr \<lparr>base64 = trim d, resultMime = m, resized = False\<rparr>"
    using assms(4,5,6) by (rule resizeImageBase64IfNeeded_within)
  have "?out ! i = pushedBlock e label ?n (Image (Some d) (Some m))"
    using assms(1,2) by simp
  also have "\<dots> = Image (Some (trim d)) (Some m)"
    using assms(3) by (simp add: pushedBlock_image r)
  finally have at_i: "?out ! i = Image (Some (trim d)) (Some m)" .
  then have same: "trim d = d \<longrightarrow> ?out ! i = blocks ! i"
    using assms(2) by auto
  have "sanitizeContentBlocksImages e blocks label opts = Inr ?out"
    by (rule sanitizeContentBlocksImages_map)
  with at_i same r show ?thesis by blast
qed

theorem within_threshold_forwarded_witness:
  "\<exists>out. sanitizeContentBlocksImages nodeLinux
      [Text (Some ''x''), Image (Some ''iVBORw0KGgoAAAANSUhEUgAAB9AAAAfQ'') (Some ''image/png'')]
      ''bash'' None = Inr out \<and>
     out ! 1 = Image (Some ''iVBORw0KGgoAAAANSUhEUgAAB9AAAAfQ'') (Some ''image/png'')"
proof -
  let ?d = "''iVBORw0KGgoAAAANSUhEUgAAB9AAAAfQ''"
  let ?blocks = "[Text (Some ''x''), Image (Some ?d) (Some ''image/png'')]"
  have t: "trim ?d = ?d"
    by code_simp
  have i: "1 < length ?blocks" "?blocks ! 1 = Image (Some ?d) (Some ''image/png'')"
      "trim ?d \<noteq> []"
    by (simp_all add: t)
  have probe: "getImageMetadata nodeLinux (bufferFromBase64 (trim ?d)) =
      Inr (Some \<lparr>width = 2000, height = 2000\<rparr>)"
    by code_simp
  have le: "width \<lparr>width = 2000, height = 2000\<rparr> \<le>
        max (case None of Some v \<Rightarrow> v | None \<Rightarrow> MAX_IMAGE_DIMENSION_PX) 1"
      "height \<lparr>width = 2000, height = 2000\<rparr> \<le>
        max (case None of Some v \<Rightarrow> v | None \<Rightarrow> MAX_IMAGE_DIMENSION_PX) 1"
    by (simp_all add: MAX_IMAGE_DIMENSION_PX_def)
  show ?thesis
    using within_threshold_forwarded [OF i probe le, of "''bash''"]
    by (auto simp: t)
qed

text \<open>
  The claim as stated fails: a payload with a leading space is forwarded without the
  space, so the data of the block is not the data it came with.
\<close>

theorem trimmed_payload_counterexample:
  "getImageMetadata nodeLinux
     (bufferFromBase64 (trim '' iVBORw0KGgoAAAANSUhEUgAAAAEAAAAB'')) =
     Inr (Some \<lparr>width = 1, height = 1\<rparr>) \<and>
   sanitizeContentBlocksImages nodeLinux
     [Image (Some '' iVBORw0KGgoAAAANSUhEUgAAAAEAAAAB'') (Some ''image/png'')] ''bash'' None =
     Inr [Image (Some ''iVBORw0KGgoAAAANSUhEUgAAAAEAAAAB'') (Some ''image/png'')]"
  by code_simp

text \<open>
  C7 (as amended). \<open>getImageMetadata\<close> never throws. It returns null when the
  backend throws: the external tool's run, the import of the library or its
  \<open>metadata()\<close>. When the library answers, the result is null exactly when a
  reported dimension is missing, not finite, zero or negative, and the reported size
  otherwise; when the external tool answers, the result is null exactly when its output
  lacks a width or a height, or one of the two does not parse to a finite, positive
  number, and the parsed size otherwise. When the probe returns null for an image block
  with a payload that is not empty, the sanitizer forwards the block at its place,
  unresized, with its type unchanged and with the payload trimmed of the white space at
  both ends.
\<close>

theorem probe_fails_open:
  "(\<exists>r. getImageMetadata e buf = Inr r) \<and>
   (\<forall>meta. getImageMetadata e buf = Inr (Some meta) \<longrightarrow> 0 < width meta \<and> 0 < height meta) \<and>
   ((if prefersSips e then \<exists>err. sipsQuery e buf = Inl err
     else sharpImport e \<noteq> None \<or> (\<exists>err. sharpMetadata e buf = Inl err)) \<longrightarrow>
    getImageMetadata e buf = Inr None) \<and>
   (\<forall>w h. \<not> prefersSips e \<and> sharpImport e = None \<and> sharpMetadata e buf = Inr (w, h) \<longrightarrow>
      (getImageMetadata e buf = Inr None \<longleftrightarrow>
         \<not> (\<exists>wd ht. w = Some (Finite wd) \<and> h = Some (Finite ht) \<and> 0 < wd \<and> 0 < ht)) \<and>
      (\<forall>meta. getImageMetadata e buf = Inr (Some meta) \<longrightarrow>
         w = Some (Finite (width meta)) \<and> h = Some (Finite (height meta)))) \<and>
   (\<forall>stdout. prefersSips e \<and> sipsQuery e buf = Inr stdout \<longrightarrow>
      (getImageMetadata e buf = Inr None \<longleftrightarrow>
         \<not> (\<exists>w h wd ht.
               matchDigitsAfter ''pixelWidth:'' stdout = Some w \<and>
               matchDigitsAfter ''pixelHeight:'' stdout = Some h \<and>
               parseInt w = Finite wd \<and> parseInt h = Finite ht \<and> 0 < wd \<and> 0 < ht)) \<and>
      (\<forall>meta. getImageMetadata e buf = Inr (Some meta) \<longrightarrow>
         (\<exists>w h. matchDigitsAfter ''pixelWidth:'' stdout = Some w \<and>
                matchDigitsAfter ''pixelHeight:'' stdout = Some h \<and>
                parseInt w = Finite (width meta) \<and> parseInt h = Finite (height meta)))) \<and>
   (\<forall>i d m. i < length blocks \<and> blocks ! i = Image (Some d) (Some m) \<and> trim d \<noteq> [] \<and>
       getImageMetadata e (bufferFromBase64 (trim d)) = Inr None \<longrightarrow>
     (\<exists>out. sanitizeContentBlocksImages e blocks label opts = Inr out \<and>
            out ! i = Image (Some (trim d)) (Some m)))"
proof (intro conjI)
  show "\<exists>r. getImageMetadata e buf = Inr r"
    by (rule getImageMetadata_total)
  show "\<forall>meta. getImageMetadata e buf = Inr (Some meta) \<longrightarrow> 0 < width meta \<and> 0 < height meta"
    using getImageMetadata_positive by blast
  show "(if prefersSips e then \<exists>err. sipsQuery e buf = Inl err
     else sharpImport e \<noteq> None \<or> (\<exists>err. sharpMetadata e buf = Inl err)) \<longrightarrow>
    getImageMetadata e buf = Inr None"
    by (auto simp: getImageMetadata_def sipsMetadataFromBuffer_def
        split: if_splits option.splits)
  show "\<forall>w h. \<not> prefersSips e \<and> sharpImport e = None \<and> sharpMetadata e buf = Inr (w, h) \<longrightarrow>
      (getImageMetadata e buf = Inr None \<longleftrightarrow>
         \<not> (\<exists>wd ht. w = Some (Finite wd) \<and> h = Some (Finite ht) \<and> 0 < wd \<and> 0 < ht)) \<and>
      (\<forall>meta. getImageMetadata e buf = Inr (Some meta) \<longrightarrow>
         w = Some (Finite (width meta)) \<and> h = Some (Finite (height meta)))"
    by (auto simp: getImageMetadata_def split: option.splits number.splits)
  show "\<forall>stdout. prefersSips e \<and> sipsQuery e buf = Inr stdout \<longrightarrow>
      (getImageMetadata e buf = Inr None \<longleftrightarrow>
         \<not> (\<exists>w h wd ht.
               matchDigitsAfter ''pixelWidth:'' stdout = Some w \<and>
               matchDigitsAfter ''pixelHeight:'' stdout = Some h \<and>
               parseInt w = Finite wd \<and> parseInt h = Finite ht \<and> 0 < wd \<and> 0 < ht)) \<and>
      (\<forall>meta. getImageMetadata e buf = Inr (Some meta) \<longrightarrow>
         (\<exists>w h. matchDigitsAfter ''pixelWidth:'' stdout = Some w \<and>
                matchDigitsAfter ''pixelHeight:'' stdout = Some h \<and>
                parseInt w = Finite (width meta) \<and> parseInt h = Finite (height meta)))"
    by (auto simp: getImageMetadata_def sipsMetadataFromBuffer_def
        split: option.splits number.splits)
  show "\<forall>i d m. i < length blocks \<and> blocks ! i = Image (Some d) (Some m) \<and> trim d \<noteq> [] \<and>
       getImageMetadata e (bufferFromBase64 (trim d)) = Inr None \<longrightarrow>
     (\<exists>out. sanitizeContentBlocksImages e blocks label opts = Inr out \<and>
            out ! i = Image (Some (trim d)) (Some m))"
    by (simp add: sanitizeContentBlocksImages_map pushedBlock_image
        resizeImageBase64IfNeeded_unknown)
qed

theorem probe_fails_open_witness:
  "getImageMetadata nodeLinux (bufferFromBase64 ''AAAA'') = Inr None \<and>
   getImageMetadata nodeLinux (bufferFromBase64 ''iVBORw0KGgoAAAANSUhEUgAAAAAAAAAF'') = Inr None \<and>
   getImageMetadata
     (bunDarwin\<lparr>sipsQuery := (\<lambda>buf. Inr ''pixelWidth: 0 pixelHeight: 480'')\<rparr>) [] = Inr None \<and>
   getImageMetadata
     (bunDarwin\<lparr>sipsQuery := (\<lambda>buf. Inr ''Error: cannot open file'')\<rparr>) [] = Inr None \<and>
   (\<exists>out. sanitizeContentBlocksImages nodeLinux
      [Image (Some ''AAAA'') (Some ''image/png'')] ''bash'' (Some 100) = Inr out \<and>
      out ! 0 = Image (Some ''AAAA'') (Some ''image/png''))"
proof -
  let ?blocks = "[Image (Some ''AAAA'') (Some ''image/png'')]"
  let ?zero = "bunDarwin\<lparr>sipsQuery := (\<lambda>buf. Inr ''pixelWidth: 0 pixelHeight: 480'')\<rparr>"
  let ?none = "bunDarwin\<lparr>sipsQuery := (\<lambda>buf. Inr ''Error: cannot open file'')\<rparr>"
  have t: "trim ''AAAA'' = ''AAAA''"
    by code_simp
  have np: "\<not> prefersSips nodeLinux" "sharpImport nodeLinux = None"
    by (simp_all add: prefersSips_def isBun_def nodeLinux_def)
  have thrown: "sharpMetadata nodeLinux (bufferFromBase64 ''AAAA'') =
      Inl (Error ''Error'' ''Input buffer contains unsupported image format'')"
    by code_simp
  note node = probe_fails_open [of nodeLinux "bufferFromBase64 ''AAAA''" ?blocks
      "''bash''" "Some 100"]
  have a: "getImageMetadata nodeLinux (bufferFromBase64 ''AAAA'') = Inr None"
    using node [THEN conjunct2, THEN conjunct2, THEN conjunct1] np thrown
    by simp
  have reported: "sharpMetadata nodeLinux (bufferFromBase64 ''iVBORw0KGgoAAAANSUhEUgAAAAAAAAAF'') =
      Inr (Some (Finite 0), Some (Finite 5))"
    by code_simp
  have b: "getImageMetadata nodeLinux (bufferFromBase64 ''iVBORw0KGgoAAAANSUhEUgAAAAAAAAAF'') =
      Inr None"
    using probe_fails_open [of nodeLinux "bufferFromBase64 ''iVBORw0KGgoAAAANSUhEUgAAAAAAAAAF''"
        "[]" "[]" None, THEN conjunct2, THEN conjunct2, THEN conjunct2, THEN conjunct1,
        rule_format, of "Some (Finite 0)" "Some (Finite 5)"] np reported
    by simp
  have ps: "prefersSips ?zero" "prefersSips ?none"
    by (simp_all add: prefersSips_def isBun_def bunDarwin_def)
  have q: "sipsQuery ?zero [] = Inr ''pixelWidth: 0 pixelHeight: 480''"
      "sipsQuery ?none [] = Inr ''Error: cannot open file''"
    by simp_all
  have found: "matchDigitsAfter ''pixelWidth:'' ''pixelWidth: 0 pixelHeight: 480'' = Some ''0''"
      "matchDigitsAfter ''pixelHeight:'' ''pixelWidth: 0 pixelHeight: 480'' = Some ''480''"
      "matchDigitsAfter ''pixelWidth:'' ''Error: cannot open file'' = None"
    by code_simp+
  have digits: "parseInt ''0'' = toDouble 0"
    by (simp add: parseInt_def)
  have double: "toDouble 0 = Finite 0"
    by (simp add: toDouble_def)
  have c: "getImageMetadata ?zero [] = Inr None"
    using probe_fails_open [of ?zero "[]" "[]" "[]" None, THEN conjunct2, THEN conjunct2,
        THEN conjunct2, THEN conjunct2, THEN conjunct1, rule_format,
        of "''pixelWidth: 0 pixelHeight: 480''"] ps(1) q(1)
    by (simp add: found digits double)
  have d: "getImageMetadata ?none [] = Inr None"
    using probe_fails_open [of ?none "[]" "[]" "[]" None, THEN conjunct2, THEN conjunct2,
        THEN conjunct2, THEN conjunct2, THEN conjunct1, rule_format,
        of "''Error: cannot open file''"] ps(2) q(2)
    by (simp add: found)
  have "\<exists>out. sanitizeContentBlocksImages nodeLinux ?blocks ''bash'' (Some 100) = Inr out \<and>
      out ! 0 = Image (Some (trim ''AAAA'')) (Some ''image/png'')"
    using node [THEN conjunct2, THEN conjunct2, THEN conjunct2, THEN conjunct2, THEN conjunct2,
        rule_format, of 0 "''AAAA''" "''image/png''"] a
    by (simp add: t)
  with a b c d show ?thesis
    by (simp add: t)
qed

text \<open>
  The claim as stated fails: the probe returns null and the block is forwarded, but its
  data has lost the trailing spaces.
\<close>

theorem probe_null_trimmed_counterexample:
  "getImageMetadata nodeLinux (bufferFromBase64 (trim ''AAAA  '')) = Inr None \<and>
   sanitizeContentBlocksImages nodeLinux
     [Image (Some ''AAAA  '') (Some ''image/png'')] ''bash'' None =
     Inr [Image (Some ''AAAA'') (Some ''image/png'')]"
  by code_simp








end
